theory Spec2Isabelle
  imports Complex_Main "HOL-Library.AList" "HOL-Library.Char_ord" "HOL-Library.List_Lexorder"
begin

section \<open>Data model\<close>

text \<open>
  The program is a ping monitor: \<open>modules/ping_monitor.py\<close> (the sampler),
  \<open>modules/task_manager.py\<close> (the scheduler), \<open>modules/data_manager.py\<close> (the store)
  and \<open>app.py\<close> (the request handlers).

  Conventions of the embedding.
  \<^item> A \<open>datetime\<close> is a real number of seconds since the epoch and a \<open>timedelta\<close> a
    real number of seconds; Python floats are reals. \<open>isoformat\<close> followed by
    \<open>fromisoformat\<close> is the identity, so a stored time is the number itself.
  \<^item> A Python \<open>dict\<close> is an association list with distinct keys in insertion order:
    \<open>d[k] = v\<close> is \<open>AList.update k v\<close>, \<open>d.pop(k, None)\<close> is \<open>AList.delete k\<close>,
    \<open>k in d\<close> is \<open>map_of d k \<noteq> None\<close>, \<open>len d\<close> is \<open>length\<close>.
  \<^item> A directory is an association list from file names to files. A CSV data file is
    the list of rows appended to it, together with what decides whether \<open>pd.read_csv\<close>
    can read it back: whether its header names the \<open>error\<close> column and whether a
    later batch was written with that column under a header without it. File system
    calls are taken to succeed.
  \<^item> Every clock reading, generated identifier and probe result is an argument.
\<close>

datatype task_status = Running | Completed | Stopped

datatype ping_status = Success | Timeout | Error

datatype exn =
  CapacityExceeded | KeyError | ZeroDivisionError | TypeError | OverflowError | ParserError

text \<open>One data point of \<open>PingMonitor._ping_loop\<close> (a dict with these keys).\<close>

record sample =
  timestamp :: real
  target :: string
  response_time :: "real option"
  status :: ping_status
  error :: "string option"

text \<open>The \<open>stats\<close> dict of \<open>PingMonitor._generate_report\<close>.\<close>

record stats =
  total_pings :: nat
  successful_pings :: nat
  timeout_pings :: nat
  error_pings :: nat
  avg_response_time :: "real option"
  min_response_time :: "real option"
  max_response_time :: "real option"
  availability :: real

text \<open>
  A data file. \<open>error_column\<close>: the header, written with the first batch, names the
  \<open>error\<close> column (that batch held a point of the \<open>except\<close> block). \<open>ragged\<close>: a later
  batch with the \<open>error\<close> column was appended under a header without it; its lines have
  one field more than the header and \<open>pd.read_csv\<close> raises on the file.
\<close>

record raw_file =
  mtime :: real
  error_column :: bool
  ragged :: bool
  rows :: "sample list"

text \<open>
  The three directories under \<open>data/\<close>: \<open>raw\<close> (CSV sample files), \<open>reports\<close>
  (JSON reports, with their modification time) and \<open>processed\<close> (charts, of which only
  the modification time is kept).
\<close>

record store =
  raw :: "(string \<times> raw_file) list"
  reports :: "(string \<times> real \<times> stats) list"
  processed :: "(string \<times> real) list"

section \<open>File name patterns\<close>

text \<open>
  \<open>Path.glob\<close> on a single path component: \<open>*\<close> matches any run of characters and
  \<open>?\<close> any one character; every other character stands for itself. Bracket
  expressions are not modelled; no pattern of the program has one unless a caller
  passes it in a task id.
\<close>

fun glob_match :: "string \<Rightarrow> string \<Rightarrow> bool" where
  "glob_match [] [] = True"
| "glob_match [] (c # s) = False"
| "glob_match (p # ps) [] = (p = CHR ''*'' \<and> glob_match ps [])"
| "glob_match (p # ps) (c # s) =
     (if p = CHR ''*'' then glob_match ps (c # s) \<or> glob_match (p # ps) s
      else (p = CHR ''?'' \<or> p = c) \<and> glob_match ps s)"

definition glob :: "string \<Rightarrow> (string \<times> 'a) list \<Rightarrow> (string \<times> 'a) list" where
  "glob pat dir = filter (\<lambda>(name, f). glob_match pat name) dir"

section \<open>The sampler: \<open>PingMonitor\<close>\<close>

record PingMonitor =
  target_ip :: string
  duration :: real
  task_id :: string
  is_running :: bool
  start_time :: "real option"

text \<open>
  \<open>timedelta(hours=h)\<close> in seconds. A \<open>timedelta\<close> holds between -999999999 and
  999999999 whole days (here \<open>h div 24\<close>, rounded down); outside, the constructor raises
  \<open>OverflowError\<close>.
\<close>

definition timedelta_hours :: "int \<Rightarrow> exn + real" where
  "timedelta_hours h =
     (if - 999999999 \<le> h div 24 \<and> h div 24 \<le> 999999999 then Inr (of_int h * 3600)
      else Inl OverflowError)"

text \<open>
  \<open>datetime + timedelta\<close>: the sum must lie between year 1 and year 9999, in seconds
  since the epoch from -62135596800 up to, not including, 253402300800; outside, the
  addition raises \<open>OverflowError\<close>.
\<close>

definition datetime_add :: "real \<Rightarrow> real \<Rightarrow> exn + real" where
  "datetime_add t d =
     (if - 62135596800 \<le> t + d \<and> t + d < 253402300800 then Inr (t + d)
      else Inl OverflowError)"

text \<open>\<open>PingMonitor.__init__\<close>, which raises when \<open>timedelta(hours=duration_hours)\<close> does.\<close>

definition new_monitor :: "string \<Rightarrow> int \<Rightarrow> string \<Rightarrow> exn + PingMonitor" where
  "new_monitor ip hours tid =
     (case timedelta_hours hours of
        Inl e \<Rightarrow> Inl e
      | Inr d \<Rightarrow>
          Inr \<lparr>target_ip = ip, duration = d, task_id = tid, is_running = False,
               start_time = None\<rparr>)"

text \<open>
  What \<open>ping(self.target_ip, timeout=2, unit='ms')\<close> does: it returns a float (the
  delay in milliseconds), \<open>None\<close> (no reply within the timeout) or \<open>False\<close> (the
  library's other failure value), or it raises.
\<close>

datatype ping_result = Delay real | NoReply | Failed | Raises string

text \<open>Python truthiness of a returned value: \<open>None\<close>, \<open>False\<close> and \<open>0.0\<close> are falsy.\<close>

fun truthy :: "ping_result \<Rightarrow> bool" where
  "truthy (Delay x) = (x \<noteq> 0)"
| "truthy NoReply = False"
| "truthy Failed = False"
| "truthy (Raises e) = False"

fun value_of :: "ping_result \<Rightarrow> real option" where
  "value_of (Delay x) = Some x"
| "value_of r = None"

text \<open>
  The dict built in the \<open>try\<close> block for a probe that returned
  (\<open>response_time if response_time else None\<close>, \<open>'success' if response_time else
  'timeout'\<close>), and the one built in the \<open>except\<close> block for a probe that raised.
\<close>

definition data_point :: "string \<Rightarrow> real \<Rightarrow> ping_result \<Rightarrow> sample" where
  "data_point ip now r =
     \<lparr>timestamp = now, target = ip,
      response_time = (if truthy r then value_of r else None),
      status = (if truthy r then Success else Timeout),
      error = None\<rparr>"

definition error_point :: "string \<Rightarrow> real \<Rightarrow> string \<Rightarrow> sample" where
  "error_point ip now e =
     \<lparr>timestamp = now, target = ip, response_time = None, status = Error, error = Some e\<rparr>"

text \<open>
  \<open>PingMonitor._save_data\<close>: append the rows to the data file, creating it, with a
  header, when it does not exist. The frame of a batch has the \<open>error\<close> column when one
  of its points has the key. The write happens at time \<open>now\<close>.
\<close>

definition has_error_key :: "sample list \<Rightarrow> bool" where
  "has_error_key data_points = list_ex (\<lambda>p. error p \<noteq> None) data_points"

definition save_data :: "string \<Rightarrow> real \<Rightarrow> sample list \<Rightarrow> store \<Rightarrow> store" where
  "save_data data_file now data_points fs =
     fs\<lparr>raw := AList.update data_file
        (case map_of (raw fs) data_file of
           None \<Rightarrow>
             \<lparr>mtime = now, error_column = has_error_key data_points, ragged = False,
              rows = data_points\<rparr>
         | Some f \<Rightarrow>
             \<lparr>mtime = now, error_column = error_column f,
              ragged = (ragged f \<or> (has_error_key data_points \<and> \<not> error_column f)),
              rows = rows f @ data_points\<rparr>)
        (raw fs)\<rparr>"

text \<open>
  One reading of the environment per evaluation of the loop condition
  \<open>self.is_running and datetime.now() < end_time\<close>: the flag, the clock, and (used only
  when the body runs) the probe's result and the clock reading that stamps the sample.
\<close>

record tick =
  flag :: bool
  clock :: real
  probe :: ping_result
  stamp :: real

text \<open>
  The body of the \<open>while\<close> loop on buffer \<open>data_points\<close>. A probe that returns is
  appended and the buffer is saved and emptied once it holds 10 points or more; a probe
  that raises is appended by the \<open>except\<close> block, which saves nothing.
\<close>

definition loop_body ::
  "string \<Rightarrow> string \<Rightarrow> tick \<Rightarrow> sample list \<times> store \<Rightarrow> sample list \<times> store" where
  "loop_body ip data_file t bs =
     (case bs of (data_points, fs) \<Rightarrow>
       (case probe t of
          Raises e \<Rightarrow> (data_points @ [error_point ip (stamp t) e], fs)
        | r \<Rightarrow>
            (let data_points' = data_points @ [data_point ip (stamp t) r]
             in if length data_points' \<ge> 10
                then ([], save_data data_file (stamp t) data_points' fs)
                else (data_points', fs))))"

text \<open>
  The \<open>while\<close> loop. The result is \<open>None\<close> when the readings run out before the loop
  condition fails.
\<close>

fun while_loop ::
  "string \<Rightarrow> string \<Rightarrow> real \<Rightarrow> tick list \<Rightarrow> sample list \<times> store \<Rightarrow> (sample list \<times> store) option" where
  "while_loop ip data_file end_time [] bs = None"
| "while_loop ip data_file end_time (t # ts) bs =
     (if flag t \<and> clock t < end_time
      then while_loop ip data_file end_time ts (loop_body ip data_file t bs)
      else Some bs)"

text \<open>Column statistics of pandas: \<open>mean\<close>, \<open>min\<close>, \<open>max\<close> skip missing values.\<close>

definition present :: "sample list \<Rightarrow> real list" where
  "present df = List.map_filter response_time df"

definition mean :: "real list \<Rightarrow> real option" where
  "mean xs = (if xs = [] then None else Some (sum_list xs / real (length xs)))"

definition minimum :: "real list \<Rightarrow> real option" where
  "minimum xs = (case xs of [] \<Rightarrow> None | x # r \<Rightarrow> Some (fold min r x))"

definition maximum :: "real list \<Rightarrow> real option" where
  "maximum xs = (case xs of [] \<Rightarrow> None | x # r \<Rightarrow> Some (fold max r x))"

definition count_status :: "ping_status \<Rightarrow> sample list \<Rightarrow> nat" where
  "count_status st df = length (filter (\<lambda>r. status r = st) df)"

text \<open>
  The \<open>stats\<close> dict; \<open>len(success) / len(df) * 100\<close> raises \<open>ZeroDivisionError\<close> on an
  empty frame.
\<close>

definition compute_stats :: "sample list \<Rightarrow> exn + stats" where
  "compute_stats df =
     (if length df = 0 then Inl ZeroDivisionError
      else Inr \<lparr>total_pings = length df,
                successful_pings = count_status Success df,
                timeout_pings = count_status Timeout df,
                error_pings = count_status Error df,
                avg_response_time = mean (present df),
                min_response_time = minimum (present df),
                max_response_time = maximum (present df),
                availability = real (count_status Success df) / real (length df) * 100\<rparr>)"

definition report_name :: "string \<Rightarrow> string" where
  "report_name tid = ''report_'' @ tid @ ''.json''"

definition chart_name :: "string \<Rightarrow> string" where
  "chart_name tid = ''chart_'' @ tid @ ''.png''"

text \<open>
  \<open>PingMonitor._generate_report\<close>: nothing is done when the data file does not exist;
  otherwise the file is read (\<open>pd.read_csv\<close> raises on a ragged file), the statistics
  are computed, the chart is saved and the report written.
\<close>

definition generate_report :: "string \<Rightarrow> string \<Rightarrow> real \<Rightarrow> store \<Rightarrow> exn + store" where
  "generate_report tid data_file now fs =
     (case map_of (raw fs) data_file of
        None \<Rightarrow> Inr fs
      | Some f \<Rightarrow>
          (if ragged f then Inl ParserError
           else
             (case compute_stats (rows f) of
                Inl e \<Rightarrow> Inl e
              | Inr st \<Rightarrow>
                  Inr (fs\<lparr>processed := AList.update (chart_name tid) now (processed fs),
                           reports := AList.update (report_name tid) (now, st) (reports fs)\<rparr>))))"

text \<open>
  The name of the data file: \<open>data/raw/ping_{self.target_ip}_{timestamp}.csv\<close>, where
  \<open>timestamp\<close> is the clock at the start of the loop printed as \<open>%Y%m%d_%H%M%S\<close>
  (here the argument \<open>ts\<close>).
\<close>

definition data_file_name :: "string \<Rightarrow> string \<Rightarrow> string" where
  "data_file_name ip ts = ''ping_'' @ ip @ ''_'' @ ts @ ''.csv''"

text \<open>
  \<open>PingMonitor._ping_loop\<close>: the deadline \<open>self.start_time + self.duration\<close>, the loop,
  the save of what is left in the buffer, the report. \<open>exit_time\<close> is the clock after
  the loop.
\<close>

definition ping_loop ::
  "PingMonitor \<Rightarrow> string \<Rightarrow> tick list \<Rightarrow> real \<Rightarrow> store \<Rightarrow> (exn + store) option" where
  "ping_loop m ts ticks exit_time fs =
     (case start_time m of
        None \<Rightarrow> Some (Inl TypeError)
      | Some t0 \<Rightarrow>
          (case datetime_add t0 (duration m) of
             Inl e \<Rightarrow> Some (Inl e)
           | Inr end_time \<Rightarrow>
               (let data_file = data_file_name (target_ip m) ts
                in case while_loop (target_ip m) data_file end_time ticks ([], fs) of
                     None \<Rightarrow> None
                   | Some (data_points, fs1) \<Rightarrow>
                       (let fs2 = (if data_points \<noteq> []
                                   then save_data data_file exit_time data_points fs1 else fs1)
                        in Some (generate_report (task_id m) data_file exit_time fs2)))))"

section \<open>The store: \<open>DataManager\<close>\<close>

text \<open>
  \<open>DataManager.load_task_data\<close>: the files \<open>ping_{task_id}_*.csv\<close> of the raw
  directory, sorted by name; a file on which \<open>pd.read_csv\<close> raises is skipped; the rows
  of the others are concatenated. \<open>None\<close> when there is no such file, or none that can
  be read.
\<close>

definition load_task_data :: "string \<Rightarrow> store \<Rightarrow> sample list option" where
  "load_task_data tid fs =
     (let files = glob (''ping_'' @ tid @ ''_*.csv'') (raw fs)
      in if files = [] then None
         else
           (let dfs = map (\<lambda>(name, f). rows f)
                        (filter (\<lambda>(name, f). \<not> ragged f) (sort_key fst files))
            in if dfs = [] then None else Some (concat dfs)))"

text \<open>\<open>DataManager.get_task_report\<close>.\<close>

definition get_task_report :: "string \<Rightarrow> store \<Rightarrow> stats option" where
  "get_task_report tid fs = map_option snd (map_of (reports fs) (report_name tid))"

text \<open>
  \<open>DataManager.clean_old_data\<close>: in each directory, the files of the given extension
  whose modification time is before the cutoff are deleted.
\<close>

definition unlink_old :: "string \<Rightarrow> ('a \<Rightarrow> real) \<Rightarrow> real \<Rightarrow> (string \<times> 'a) list \<Rightarrow> (string \<times> 'a) list" where
  "unlink_old pat mt cutoff dir =
     filter (\<lambda>(name, f). \<not> (glob_match pat name \<and> mt f < cutoff)) dir"

definition clean_old_data :: "int \<Rightarrow> real \<Rightarrow> store \<Rightarrow> store" where
  "clean_old_data days_to_keep now fs =
     (let cutoff_date = now - of_int days_to_keep * 86400
      in \<lparr>raw = unlink_old ''*.csv'' mtime cutoff_date (raw fs),
          reports = unlink_old ''*.json'' fst cutoff_date (reports fs),
          processed = unlink_old ''*.png'' id cutoff_date (processed fs)\<rparr>)"

section \<open>The scheduler: \<open>TaskManager\<close>\<close>

text \<open>
  A record of \<open>task_history\<close> (a dict with the keys \<open>id\<close>, \<open>target_ip\<close>,
  \<open>duration_hours\<close>, \<open>start_time\<close>, \<open>status\<close>, \<open>progress\<close> and, once written,
  \<open>elapsed\<close> and \<open>end_time\<close>). \<open>elapsed\<close> is kept as whole seconds rather than as
  the printed text.
\<close>

record task_info =
  info_id :: string
  info_target_ip :: string
  duration_hours :: int
  info_start_time :: real
  info_status :: task_status
  progress :: real
  elapsed :: "int option"
  end_time :: "real option"

text \<open>
  The manager. \<open>monitors\<close> is the heap of \<open>PingMonitor\<close> objects: \<open>active_tasks\<close> and
  the watcher threads hold a monitor by its index, so that a monitor popped from
  \<open>active_tasks\<close> is still the one its watcher reads. \<open>completed_tasks\<close> holds the
  record as it is when appended.
\<close>

record TaskManager =
  max_concurrent_tasks :: int
  active_tasks :: "(string \<times> nat) list"
  completed_tasks :: "task_info list"
  task_history :: "(string \<times> task_info) list"
  monitors :: "PingMonitor list"

definition init_manager :: "int \<Rightarrow> TaskManager" where
  "init_manager n =
     \<lparr>max_concurrent_tasks = n, active_tasks = [], completed_tasks = [], task_history = [],
      monitors = []\<rparr>"

text \<open>\<open>PingMonitor.start\<close> and \<open>PingMonitor.stop\<close> on the monitor at index \<open>r\<close>.\<close>

definition monitor_start :: "real \<Rightarrow> nat \<Rightarrow> TaskManager \<Rightarrow> TaskManager" where
  "monitor_start now r s =
     s\<lparr>monitors := (monitors s)[r := (monitors s ! r)\<lparr>is_running := True, start_time := Some now\<rparr>]\<rparr>"

definition monitor_stop :: "nat \<Rightarrow> TaskManager \<Rightarrow> TaskManager" where
  "monitor_stop r s =
     s\<lparr>monitors := (monitors s)[r := (monitors s ! r)\<lparr>is_running := False\<rparr>]\<rparr>"

definition running :: "nat \<Rightarrow> TaskManager \<Rightarrow> bool" where
  "running r s = (r < length (monitors s) \<and> is_running (monitors s ! r))"

text \<open>
  \<open>TaskManager.create_task\<close> in its parts: the test of the first line, made before
  the lock is taken; the construction of the monitor, which may raise; the block under
  \<open>with self.lock\<close>, which puts the monitor \<open>m\<close> on the heap and registers it; and
  \<open>monitor.start()\<close>. \<open>tid\<close> is the generated identifier and \<open>now\<close> the clock.
\<close>

definition at_capacity :: "TaskManager \<Rightarrow> bool" where
  "at_capacity s = (int (length (active_tasks s)) \<ge> max_concurrent_tasks s)"

definition register_task ::
  "PingMonitor \<Rightarrow> string \<Rightarrow> int \<Rightarrow> string \<Rightarrow> real \<Rightarrow> TaskManager \<Rightarrow> TaskManager" where
  "register_task m ip hours tid now s =
     s\<lparr>monitors := monitors s @ [m],
       active_tasks := AList.update tid (length (monitors s)) (active_tasks s),
       task_history := AList.update tid
          \<lparr>info_id = tid, info_target_ip = ip, duration_hours = hours, info_start_time = now,
           info_status = Running, progress = 0, elapsed = None, end_time = None\<rparr>
          (task_history s)\<rparr>"

definition create_task ::
  "string \<Rightarrow> int \<Rightarrow> string \<Rightarrow> real \<Rightarrow> TaskManager \<Rightarrow> exn + (string \<times> TaskManager)" where
  "create_task ip hours tid now s =
     (if at_capacity s then Inl CapacityExceeded
      else
        (case new_monitor ip hours tid of
           Inl e \<Rightarrow> Inl e
         | Inr m \<Rightarrow>
             Inr (tid, monitor_start now (length (monitors s))
                         (register_task m ip hours tid now s))))"

text \<open>
  The watcher thread \<open>TaskManager._monitor_task\<close> with its arguments and its local
  \<open>start_time\<close>.
\<close>

record watcher =
  w_task_id :: string
  w_monitor :: nat
  w_duration_hours :: int
  w_start_time :: real

text \<open>\<open>round(x, 2)\<close>: to the nearest hundredth, a tie going to the even one.\<close>

definition round2 :: "real \<Rightarrow> real" where
  "round2 x =
     (let y = x * 100; f = \<lfloor>y\<rfloor>
      in real_of_int
           (if y - of_int f < 1 / 2 then f
            else if y - of_int f > 1 / 2 then f + 1
            else if even f then f else f + 1) / 100)"

text \<open>
  The deadline \<open>start_time + timedelta(hours=duration_hours)\<close>, computed before the
  loop; the thread ends there when either operation raises.
\<close>

definition watcher_deadline :: "watcher \<Rightarrow> exn + real" where
  "watcher_deadline w =
     (case timedelta_hours (w_duration_hours w) of
        Inl e \<Rightarrow> Inl e
      | Inr d \<Rightarrow> datetime_add (w_start_time w) d)"

text \<open>
  One evaluation of \<open>while monitor.is_running\<close> and of the loop body at clock \<open>now\<close>.
  The boolean tells whether the loop goes on.
\<close>

definition monitor_task_iter :: "real \<Rightarrow> watcher \<Rightarrow> TaskManager \<Rightarrow> exn + (bool \<times> TaskManager)" where
  "monitor_task_iter now w s =
     (case watcher_deadline w of
        Inl e \<Rightarrow> Inl e
      | Inr deadline \<Rightarrow>
          (if \<not> running (w_monitor w) s then Inr (False, s)
           else if now \<ge> deadline then Inr (False, monitor_stop (w_monitor w) s)
           else if w_duration_hours w * 3600 = 0 then Inl ZeroDivisionError
           else
             (let el = now - w_start_time w;
                  pr = min 100 (el / of_int (w_duration_hours w * 3600) * 100)
              in Inr (True,
                   (case map_of (task_history s) (w_task_id w) of
                      None \<Rightarrow> s
                    | Some r \<Rightarrow>
                        s\<lparr>task_history := AList.update (w_task_id w)
                             (r\<lparr>progress := round2 pr, elapsed := Some \<lfloor>el\<rfloor>\<rparr>)
                             (task_history s)\<rparr>)))))"

text \<open>The block after the loop, under the lock, at clock \<open>now\<close>.\<close>

definition monitor_task_finish :: "real \<Rightarrow> watcher \<Rightarrow> TaskManager \<Rightarrow> TaskManager" where
  "monitor_task_finish now w s =
     (let s1 = s\<lparr>active_tasks := AList.delete (w_task_id w) (active_tasks s)\<rparr>
      in case map_of (task_history s1) (w_task_id w) of
           None \<Rightarrow> s1
         | Some r \<Rightarrow>
             (let r' = r\<lparr>info_status := Completed, end_time := Some now, progress := 100\<rparr>
              in s1\<lparr>task_history := AList.update (w_task_id w) r' (task_history s1),
                    completed_tasks := completed_tasks s1 @ [r']\<rparr>))"

text \<open>
  \<open>TaskManager.stop_task\<close>. The first component is the returned boolean, or the
  \<open>KeyError\<close> of \<open>self.task_history[task_id]\<close>, raised after \<open>monitor.stop()\<close>.
\<close>

definition stop_task :: "string \<Rightarrow> real \<Rightarrow> TaskManager \<Rightarrow> (exn + bool) \<times> TaskManager" where
  "stop_task tid now s =
     (case map_of (active_tasks s) tid of
        None \<Rightarrow> (Inr False, s)
      | Some m \<Rightarrow>
          (let s1 = monitor_stop m s
           in case map_of (task_history s1) tid of
                None \<Rightarrow> (Inl KeyError, s1)
              | Some r \<Rightarrow>
                  (Inr True,
                   s1\<lparr>task_history := AList.update tid
                        (r\<lparr>info_status := Stopped, end_time := Some now\<rparr>) (task_history s1),
                      active_tasks := AList.delete tid (active_tasks s1)\<rparr>)))"

text \<open>\<open>TaskManager.get_task_status\<close>; \<open>None\<close> is the empty dict.\<close>

definition get_task_status :: "string \<Rightarrow> TaskManager \<Rightarrow> task_info option" where
  "get_task_status tid s = map_of (task_history s) tid"

text \<open>
  \<open>TaskManager.cleanup_old_tasks\<close>. A record's time is
  \<open>task.get('end_time', task.get('start_time', ''))\<close>.
\<close>

definition task_time :: "task_info \<Rightarrow> real" where
  "task_time t = (case end_time t of Some e \<Rightarrow> e | None \<Rightarrow> info_start_time t)"

definition cleanup_old_tasks :: "int \<Rightarrow> real \<Rightarrow> TaskManager \<Rightarrow> TaskManager" where
  "cleanup_old_tasks days_to_keep now s =
     (let cutoff_date = now - of_int days_to_keep * 86400
      in s\<lparr>completed_tasks := filter (\<lambda>t. task_time t > cutoff_date) (completed_tasks s),
           task_history :=
             filter (\<lambda>(tid, t). \<not> (info_status t = Completed \<and> task_time t < cutoff_date))
               (task_history s)\<rparr>)"

section \<open>The request handlers of \<open>app.py\<close>\<close>

record app =
  task_manager :: TaskManager
  data_manager :: store



text \<open>The \<open>/cleanup\<close> handler: \<open>data_manager.clean_old_data(days_to_keep=7)\<close>.\<close>

definition cleanup :: "real \<Rightarrow> app \<Rightarrow> app" where
  "cleanup now a = a\<lparr>data_manager := clean_old_data 7 now (data_manager a)\<rparr>"

section \<open>Sequences of calls\<close>

text \<open>
  Calls that do not overlap in time: the entry points of the manager as one datatype,
  each performed as a whole before the next one starts, and a sequence of them run
  from left to right. A call that raises leaves the state it had reached. Calls of
  \<open>create_task\<close> that do overlap are the subject of the next section.
\<close>

datatype call =
    Create string int string real
  | Stop string real
  | WatcherIter real watcher
  | WatcherFinish real watcher
  | Cleanup int real

fun perform :: "call \<Rightarrow> TaskManager \<Rightarrow> TaskManager" where
  "perform (Create ip hours tid now) s =
     (case create_task ip hours tid now s of Inl e \<Rightarrow> s | Inr (t, s') \<Rightarrow> s')"
| "perform (Stop tid now) s = snd (stop_task tid now s)"
| "perform (WatcherIter now w) s =
     (case monitor_task_iter now w s of Inl e \<Rightarrow> s | Inr (go, s') \<Rightarrow> s')"
| "perform (WatcherFinish now w) s = monitor_task_finish now w s"
| "perform (Cleanup days now) s = cleanup_old_tasks days now s"

definition run :: "call list \<Rightarrow> TaskManager \<Rightarrow> TaskManager" where
  "run calls s = fold perform calls s"

text \<open>The number of records of \<open>task_history\<close> whose status is \<open>running\<close>.\<close>

definition running_count :: "TaskManager \<Rightarrow> nat" where
  "running_count s = length (filter (\<lambda>(tid, t). info_status t = Running) (task_history s))"

text \<open>
  The registry is consistent when its dicts have distinct keys and the active tasks are
  exactly the tasks recorded as \<open>running\<close>.
\<close>

definition consistent :: "TaskManager \<Rightarrow> bool" where
  "consistent s =
     (distinct (map fst (active_tasks s)) \<and> distinct (map fst (task_history s)) \<and>
      (\<forall>tid. (map_of (active_tasks s) tid \<noteq> None) =
             (\<exists>t. map_of (task_history s) tid = Some t \<and> info_status t = Running)))"

section \<open>Threads inside \<open>create_task\<close>\<close>

text \<open>
  A thread running \<open>create_task\<close> can be interrupted between the capacity test, made
  without the lock, the block under the lock, and \<open>monitor.start()\<close>. Each of the three
  is one atomic step; the block under the lock is one step because the lock excludes
  every other access made under it. The construction of the monitor reads and writes
  nothing shared and is taken together with the test; the thread then holds the
  monitor until it registers it.
\<close>

datatype pc = AtCheck | AtLock PingMonitor | AtStart nat | Returned | Raised

record create_call =
  c_pc :: pc
  c_ip :: string
  c_hours :: int
  c_tid :: string
  c_now :: real

definition create_step :: "create_call \<Rightarrow> TaskManager \<Rightarrow> create_call \<times> TaskManager" where
  "create_step c s =
     (case c_pc c of
        AtCheck \<Rightarrow>
          (if at_capacity s then (c\<lparr>c_pc := Raised\<rparr>, s)
           else
             (case new_monitor (c_ip c) (c_hours c) (c_tid c) of
                Inl e \<Rightarrow> (c\<lparr>c_pc := Raised\<rparr>, s)
              | Inr m \<Rightarrow> (c\<lparr>c_pc := AtLock m\<rparr>, s)))
      | AtLock m \<Rightarrow>
          (c\<lparr>c_pc := AtStart (length (monitors s))\<rparr>,
           register_task m (c_ip c) (c_hours c) (c_tid c) (c_now c) s)
      | AtStart r \<Rightarrow> (c\<lparr>c_pc := Returned\<rparr>, monitor_start (c_now c) r s)
      | Returned \<Rightarrow> (c, s)
      | Raised \<Rightarrow> (c, s))"

text \<open>A schedule names, step by step, the thread that moves.\<close>

fun interleave :: "nat list \<Rightarrow> create_call list \<Rightarrow> TaskManager \<Rightarrow> create_call list \<times> TaskManager" where
  "interleave [] cs s = (cs, s)"
| "interleave (i # sched) cs s =
     (if i < length cs
      then (case create_step (cs ! i) s of (c', s') \<Rightarrow> interleave sched (cs[i := c']) s')
      else interleave sched cs s)"

definition new_call :: "string \<Rightarrow> int \<Rightarrow> string \<Rightarrow> real \<Rightarrow> create_call" where
  "new_call ip hours tid now = \<lparr>c_pc = AtCheck, c_ip = ip, c_hours = hours, c_tid = tid, c_now = now\<rparr>"

section \<open>Auxiliary notions and scenarios\<close>

text \<open>The active tasks are within the ceiling.\<close>

definition bounded :: "TaskManager \<Rightarrow> bool" where
  "bounded s = (int (length (active_tasks s)) \<le> max_concurrent_tasks s)"


text \<open>
  Readings of the environment used in the scenarios below: the flag is set and the
  deadline far, and the probe returns 12 ms, returns 0 ms, or raises; or the flag has
  been cleared.
\<close>

definition replied :: "real \<Rightarrow> tick" where
  "replied t = \<lparr>flag = True, clock = t, probe = Delay 12, stamp = t\<rparr>"

definition raised :: "real \<Rightarrow> tick" where
  "raised t = \<lparr>flag = True, clock = t, probe = Raises ''unreachable'', stamp = t\<rparr>"

definition cleared :: "real \<Rightarrow> tick" where
  "cleared t = \<lparr>flag = False, clock = t, probe = NoReply, stamp = t\<rparr>"

definition empty_store :: store where
  "empty_store = \<lparr>raw = [], reports = [], processed = []\<rparr>"

text \<open>A started monitor of task \<open>a1b2c3d4\<close> on target \<open>8.8.8.8\<close> for one hour.\<close>

definition monitor1 :: PingMonitor where
  "monitor1 = \<lparr>target_ip = ''8.8.8.8'', duration = 3600, task_id = ''a1b2c3d4'',
               is_running = True, start_time = Some 0\<rparr>"

text \<open>The watcher of that task as \<open>create_task\<close> starts it on an empty manager.\<close>

definition watcher1 :: watcher where
  "watcher1 = \<lparr>w_task_id = ''a1b2c3d4'', w_monitor = 0, w_duration_hours = 1, w_start_time = 0\<rparr>"


text \<open>
  An application whose only task completed at time 0, with its record in the registry
  and its data file, report and chart written at time 0.
\<close>

definition old_record :: task_info where
  "old_record = \<lparr>info_id = ''a1b2c3d4'', info_target_ip = ''8.8.8.8'', duration_hours = 1,
                 info_start_time = - 3600, info_status = Completed, progress = 100,
                 elapsed = Some 3595, end_time = Some 0\<rparr>"

definition old_stats :: stats where
  "old_stats = \<lparr>total_pings = 1, successful_pings = 1, timeout_pings = 0, error_pings = 0,
                avg_response_time = Some 12, min_response_time = Some 12,
                max_response_time = Some 12, availability = 100\<rparr>"

definition old_app :: app where
  "old_app =
     \<lparr>task_manager =
        \<lparr>max_concurrent_tasks = 5, active_tasks = [], completed_tasks = [old_record],
         task_history = [(''a1b2c3d4'', old_record)],
         monitors = []\<rparr>,
      data_manager =
        \<lparr>raw = [(''ping_8.8.8.8_20240101_120000.csv'',
                 \<lparr>mtime = 0, error_column = False, ragged = False,
                  rows = [data_point ''8.8.8.8'' (- 1) (Delay 12)]\<rparr>)],
         reports = [(''report_a1b2c3d4.json'', (0, old_stats))],
         processed = [(''chart_a1b2c3d4.png'', 0)]\<rparr>\<rparr>"

text \<open>
  A manager whose history holds a task completed at time 0 and a task stopped at
  time 0.
\<close>

definition stopped_record :: task_info where
  "stopped_record = \<lparr>info_id = ''0badcafe'', info_target_ip = ''1.1.1.1'', duration_hours = 1,
                 info_start_time = - 3600, info_status = Stopped, progress = 40,
                 elapsed = Some 1440, end_time = Some 0\<rparr>"

definition aged_manager :: TaskManager where
  "aged_manager = \<lparr>max_concurrent_tasks = 5, active_tasks = [],
     completed_tasks = [old_record],
     task_history = [(''a1b2c3d4'', old_record), (''0badcafe'', stopped_record)],
     monitors = []\<rparr>"

section \<open>The sampler: classification and flushing\<close>

lemma data_point_delay:
  "x \<noteq> 0 \<Longrightarrow> data_point ip now (Delay x) =
     \<lparr>timestamp = now, target = ip, response_time = Some x, status = Success, error = None\<rparr>"
  by (simp add: data_point_def)

lemma data_point_no_reply:
  "data_point ip now NoReply =
     \<lparr>timestamp = now, target = ip, response_time = None, status = Timeout, error = None\<rparr>"
  by (simp add: data_point_def)

lemma loop_body_raises:
  "probe t = Raises e \<Longrightarrow>
     loop_body ip f t (b, fs) =
       (b @ [\<lparr>timestamp = stamp t, target = ip, response_time = None, status = Error,
              error = Some e\<rparr>], fs)"
  by (simp add: loop_body_def error_point_def)

text \<open>
  Claim C3 (sample classification): a probe that returns a numeric latency is recorded
  as \<open>success\<close> with that latency. The code tests the returned value for truth, so a
  returned latency of 0.0 ms is recorded as \<open>timeout\<close> with no latency; the theorem
  evaluates the code there, both the dict built and the buffer after the loop body.
\<close>

theorem zero_delay_recorded_as_timeout:
  "data_point ip now (Delay 0) =
     \<lparr>timestamp = now, target = ip, response_time = None, status = Timeout, error = None\<rparr> \<and>
   loop_body ip f \<lparr>flag = True, clock = c, probe = Delay 0, stamp = now\<rparr> ([], fs) =
     ([\<lparr>timestamp = now, target = ip, response_time = None, status = Timeout, error = None\<rparr>],
      fs)"
  by (simp add: data_point_def loop_body_def)

text \<open>
  Claim C4 (batch flush boundary): a flush happens exactly when the buffer reaches 10
  samples, whatever the samples are. The \<open>except\<close> block appends without the test of
  the length: after nine replies and one raising probe the buffer holds 10 samples and
  nothing has been written; the next reply makes the loop write 11 rows at once.
\<close>

theorem flush_after_raise_writes_eleven:
  "map_option (\<lambda>(b, fs). (length b, map (\<lambda>(name, f). length (rows f)) (raw fs)))
     (while_loop ''8.8.8.8'' ''ping.csv'' 3600
        (map replied [1, 2, 3, 4, 5, 6, 7, 8, 9] @ [raised 10, cleared 11]) ([], empty_store))
     = Some (10, []) \<and>
   map_option (\<lambda>(b, fs). (length b, map (\<lambda>(name, f). length (rows f)) (raw fs)))
     (while_loop ''8.8.8.8'' ''ping.csv'' 3600
        (map replied [1, 2, 3, 4, 5, 6, 7, 8, 9] @ [raised 10, replied 11, cleared 12])
        ([], empty_store))
     = Some (0, [11])"
  by (simp add: replied_def raised_def cleared_def empty_store_def loop_body_def data_point_def
        error_point_def save_data_def has_error_key_def)

lemma result_unique: "x = Some (Inr y) \<Longrightarrow> \<exists>z. x = Some (Inr z) \<and> P z \<Longrightarrow> P y"
  by auto

text \<open>
  Claim C1 (load of a job's samples): after the sampler has flushed a batch for a job,
  \<open>load_task_data\<close> of the job's id returns the series. The sampler names the data
  file after the target address, the store looks for a name made of the task id: for
  task \<open>a1b2c3d4\<close> on target \<open>8.8.8.8\<close> the ten flushed samples are in the store,
  the load by task id finds no file, and a load by the target address finds them.
\<close>

theorem load_task_data_misses_flushed_samples:
  "\<exists>fs. ping_loop monitor1 ''20240101_120000''
          (map replied [1, 2, 3, 4, 5, 6, 7, 8, 9, 10] @ [cleared 11]) 11 empty_store
          = Some (Inr fs) \<and>
        map (\<lambda>(name, f). (name, length (rows f))) (raw fs)
          = [(''ping_8.8.8.8_20240101_120000.csv'', 10)] \<and>
        load_task_data ''a1b2c3d4'' fs = None \<and>
        map_option length (load_task_data ''8.8.8.8'' fs) = Some 10"
proof -
  let ?run = "ping_loop monitor1 ''20240101_120000''
                (map replied [1, 2, 3, 4, 5, 6, 7, 8, 9, 10] @ [cleared 11]) 11 empty_store"
  have a: "\<exists>fs. ?run = Some (Inr fs) \<and>
             map (\<lambda>(name, f). (name, length (rows f))) (raw fs)
               = [(''ping_8.8.8.8_20240101_120000.csv'', 10)]"
    by (simp add: ping_loop_def datetime_add_def monitor1_def replied_def cleared_def
          empty_store_def loop_body_def data_point_def save_data_def has_error_key_def
          data_file_name_def generate_report_def compute_stats_def chart_name_def
          report_name_def)
  have b: "\<exists>fs. ?run = Some (Inr fs) \<and> load_task_data ''a1b2c3d4'' fs = None"
    by (simp add: ping_loop_def datetime_add_def monitor1_def replied_def cleared_def
          empty_store_def loop_body_def data_point_def save_data_def has_error_key_def
          data_file_name_def generate_report_def compute_stats_def load_task_data_def glob_def
          chart_name_def report_name_def)
  have c: "\<exists>fs. ?run = Some (Inr fs) \<and>
             map_option length (load_task_data ''8.8.8.8'' fs) = Some 10"
    by (simp add: ping_loop_def datetime_add_def monitor1_def replied_def cleared_def
          empty_store_def loop_body_def data_point_def save_data_def has_error_key_def
          data_file_name_def generate_report_def compute_stats_def load_task_data_def glob_def
          chart_name_def report_name_def)
  from a have "\<exists>fs. ?run = Some (Inr fs)" by (elim exE conjE exI)
  then obtain fs where r: "?run = Some (Inr fs)" ..
  have pa: "map (\<lambda>(name, f). (name, length (rows f))) (raw fs)
              = [(''ping_8.8.8.8_20240101_120000.csv'', 10)]"
    by (rule result_unique [OF r a])
  have pb: "load_task_data ''a1b2c3d4'' fs = None"
    by (rule result_unique [OF r b])
  have pc: "map_option length (load_task_data ''8.8.8.8'' fs) = Some 10"
    by (rule result_unique [OF r c])
  show ?thesis
    by (intro exI [of _ fs] conjI) (rule r, rule pa, rule pb, rule pc)
qed

section \<open>The sampler: the report of an empty series\<close>















section \<open>The scheduler: the ceiling over calls that do not overlap\<close>

lemma map_of_filter_keep:
  "distinct (map fst al) \<Longrightarrow>
     map_of (filter P al) k = (case map_of al k of None \<Rightarrow> None | Some v \<Rightarrow> if P (k, v) then Some v else None)"
proof (induction al)
  case Nil
  then show ?case by simp
next
  case (Cons a al)
  obtain k' v' where a: "a = (k', v')" by (cases a)
  from Cons.prems a have notin: "k' \<notin> fst ` set al" by simp
  then have none: "map_of al k' = None" by (simp add: map_of_eq_None_iff)
  from Cons a none show ?case by (auto split: option.splits)
qed

lemma length_update_le: "length (AList.update k v al) \<le> Suc (length al)"
  by (induction al) auto

lemma map_of_update_neq_None:
  "(map_of (AList.update k v al) x \<noteq> None) = (x = k \<or> map_of al x \<noteq> None)"
  by (simp add: update_conv')

lemma max_perform: "max_concurrent_tasks (perform c s) = max_concurrent_tasks s"
  by (cases c)
     (auto simp: create_task_def monitor_start_def register_task_def stop_task_def monitor_stop_def
        monitor_task_iter_def monitor_task_finish_def cleanup_old_tasks_def Let_def
        split: option.splits sum.splits if_splits)

lemma bounded_perform: "bounded s \<Longrightarrow> bounded (perform c s)"
proof (cases c)
  case (Create ip hours tid now)
  assume b: "bounded s"
  show ?thesis
  proof (cases "at_capacity s")
    case True
    with b Create show ?thesis by (simp add: create_task_def)
  next
    case False
    then have "int (length (active_tasks s)) < max_concurrent_tasks s"
      by (simp add: at_capacity_def)
    moreover have "length (AList.update tid (length (monitors s)) (active_tasks s)) \<le> Suc (length (active_tasks s))"
      by (rule length_update_le)
    ultimately show ?thesis using False Create b
      by (simp add: create_task_def bounded_def monitor_start_def register_task_def
            split: sum.splits)
  qed
next
  case (Stop tid now)
  assume b: "bounded s"
  have "length (AList.delete tid (active_tasks s)) \<le> length (active_tasks s)"
    by (rule length_delete_le)
  with b Stop show ?thesis
    by (auto simp: stop_task_def bounded_def monitor_stop_def Let_def split: option.splits)
next
  case (WatcherIter now w)
  assume b: "bounded s"
  with WatcherIter show ?thesis
    by (auto simp: monitor_task_iter_def bounded_def monitor_stop_def Let_def
          split: option.splits sum.splits if_splits)
next
  case (WatcherFinish now w)
  assume b: "bounded s"
  have "length (AList.delete (w_task_id w) (active_tasks s)) \<le> length (active_tasks s)"
    by (rule length_delete_le)
  with b WatcherFinish show ?thesis
    by (auto simp: monitor_task_finish_def bounded_def Let_def split: option.splits)
next
  case (Cleanup days now)
  assume b: "bounded s"
  with Cleanup show ?thesis by (simp add: cleanup_old_tasks_def bounded_def Let_def)
qed

lemma consistentD:
  "consistent s \<Longrightarrow>
     (map_of (active_tasks s) tid \<noteq> None) =
     (\<exists>t. map_of (task_history s) tid = Some t \<and> info_status t = Running)"
  by (simp add: consistent_def del: map_of_eq_Some_iff)

lemma consistent_keys:
  "consistent s \<Longrightarrow> distinct (map fst (active_tasks s)) \<and> distinct (map fst (task_history s))"
  by (simp add: consistent_def)

lemma consistentI:
  "distinct (map fst (active_tasks s)) \<Longrightarrow> distinct (map fst (task_history s)) \<Longrightarrow>
   (\<And>tid. (map_of (active_tasks s) tid \<noteq> None) =
           (\<exists>t. map_of (task_history s) tid = Some t \<and> info_status t = Running)) \<Longrightarrow>
   consistent s"
  by (simp add: consistent_def del: map_of_eq_Some_iff)

lemma consistent_create:
  assumes "consistent s"
  shows "consistent (monitor_start now (length (monitors s)) (register_task m ip hours tid now s))"
proof (rule consistentI)
  fix k
  from consistentD [OF assms, of k]
  show "(map_of (active_tasks (monitor_start now (length (monitors s))
            (register_task m ip hours tid now s))) k \<noteq> None) =
        (\<exists>t. map_of (task_history (monitor_start now (length (monitors s))
            (register_task m ip hours tid now s))) k = Some t \<and> info_status t = Running)"
    by (simp add: monitor_start_def register_task_def update_conv' del: map_of_eq_Some_iff)
qed (use consistent_keys [OF assms] in
      \<open>simp_all add: monitor_start_def register_task_def distinct_update\<close>)

lemma consistent_monitor_stop: "consistent s \<Longrightarrow> consistent (monitor_stop m s)"
  by (simp add: consistent_def monitor_stop_def del: map_of_eq_Some_iff)

lemma consistent_stop:
  assumes "consistent s"
  shows "consistent (snd (stop_task tid now s))"
proof (rule consistentI)
  fix k
  from consistentD [OF assms, of k] consistentD [OF assms, of tid]
  show "(map_of (active_tasks (snd (stop_task tid now s))) k \<noteq> None) =
        (\<exists>t. map_of (task_history (snd (stop_task tid now s))) k = Some t \<and> info_status t = Running)"
    by (auto simp: stop_task_def Let_def monitor_stop_def update_conv' delete_conv'
          simp del: map_of_eq_Some_iff split: option.splits)
qed (use consistent_keys [OF assms] in
      \<open>auto simp: stop_task_def Let_def monitor_stop_def distinct_update distinct_delete
         split: option.splits\<close>)

lemma consistent_iter:
  assumes "consistent s" and "monitor_task_iter now w s = Inr (go, s')"
  shows "consistent s'"
proof (rule consistentI)
  fix k
  from consistentD [OF assms(1), of k] consistentD [OF assms(1), of "w_task_id w"] assms(2)
  show "(map_of (active_tasks s') k \<noteq> None) =
        (\<exists>t. map_of (task_history s') k = Some t \<and> info_status t = Running)"
    by (auto simp: monitor_task_iter_def Let_def monitor_stop_def update_conv'
          simp del: map_of_eq_Some_iff split: option.splits sum.splits if_splits)
qed (use consistent_keys [OF assms(1)] assms(2) in
      \<open>auto simp: monitor_task_iter_def Let_def monitor_stop_def distinct_update
         split: option.splits sum.splits if_splits\<close>)

lemma consistent_finish:
  assumes "consistent s"
  shows "consistent (monitor_task_finish now w s)"
proof (rule consistentI)
  fix k
  from consistentD [OF assms, of k] consistentD [OF assms, of "w_task_id w"]
  show "(map_of (active_tasks (monitor_task_finish now w s)) k \<noteq> None) =
        (\<exists>t. map_of (task_history (monitor_task_finish now w s)) k = Some t \<and> info_status t = Running)"
    by (auto simp: monitor_task_finish_def Let_def update_conv' delete_conv'
          simp del: map_of_eq_Some_iff split: option.splits)
qed (use consistent_keys [OF assms] in
      \<open>auto simp: monitor_task_finish_def Let_def distinct_update distinct_delete
         split: option.splits\<close>)

lemma consistent_cleanup:
  assumes "consistent s"
  shows "consistent (cleanup_old_tasks days now s)"
proof (rule consistentI)
  fix k
  from consistentD [OF assms, of k] consistent_keys [OF assms]
  show "(map_of (active_tasks (cleanup_old_tasks days now s)) k \<noteq> None) =
        (\<exists>t. map_of (task_history (cleanup_old_tasks days now s)) k = Some t \<and> info_status t = Running)"
    by (auto simp: cleanup_old_tasks_def Let_def map_of_filter_keep
          simp del: map_of_eq_Some_iff split: option.splits)
qed (use consistent_keys [OF assms] in
      \<open>simp_all add: cleanup_old_tasks_def Let_def distinct_map_filter\<close>)

lemma consistent_perform: "consistent s \<Longrightarrow> consistent (perform c s)"
proof (cases c)
  case (Create ip hours tid now)
  assume "consistent s"
  with Create consistent_create [of s now _ ip hours tid] show ?thesis
    by (simp add: create_task_def split: sum.splits)
next
  case (Stop tid now)
  assume "consistent s"
  with Stop show ?thesis by (simp add: consistent_stop)
next
  case (WatcherIter now w)
  assume "consistent s"
  with WatcherIter consistent_iter [of s now w] show ?thesis
    by (auto split: sum.splits)
next
  case (WatcherFinish now w)
  assume "consistent s"
  with WatcherFinish show ?thesis by (simp add: consistent_finish)
next
  case (Cleanup days now)
  assume "consistent s"
  with Cleanup show ?thesis by (simp add: consistent_cleanup)
qed

lemma run_invariant:
  "consistent s \<Longrightarrow> bounded s \<Longrightarrow>
     consistent (run calls s) \<and> bounded (run calls s) \<and>
     max_concurrent_tasks (run calls s) = max_concurrent_tasks s"
  unfolding run_def
proof (induction calls arbitrary: s)
  case Nil
  then show ?case by simp
next
  case (Cons c calls)
  from Cons.prems have "consistent (perform c s)" and "bounded (perform c s)"
    by (simp_all add: consistent_perform bounded_perform)
  from Cons.IH [OF this] show ?case by (simp add: max_perform)
qed

lemma running_count_active:
  assumes "consistent s"
  shows "running_count s = length (active_tasks s)"
proof -
  let ?R = "filter (\<lambda>(tid, t). info_status t = Running) (task_history s)"
  from assms have da: "distinct (map fst (active_tasks s))"
    and dh: "distinct (map fst (task_history s))"
    and iff: "\<And>tid. (map_of (active_tasks s) tid \<noteq> None) =
                (\<exists>t. map_of (task_history s) tid = Some t \<and> info_status t = Running)"
    by (simp_all add: consistent_def del: map_of_eq_Some_iff)
  from dh have dr: "distinct (map fst ?R)" by (rule distinct_map_filter)
  have "set (map fst ?R) = set (map fst (active_tasks s))"
  proof (rule set_eqI)
    fix k
    have "k \<in> set (map fst ?R) \<longleftrightarrow> (\<exists>t. (k, t) \<in> set (task_history s) \<and> info_status t = Running)"
      by force
    also have "\<dots> \<longleftrightarrow> (\<exists>t. map_of (task_history s) k = Some t \<and> info_status t = Running)"
      using dh by simp
    also have "\<dots> \<longleftrightarrow> map_of (active_tasks s) k \<noteq> None" using iff [of k] by blast
    also have "\<dots> \<longleftrightarrow> k \<in> set (map fst (active_tasks s))"
      by (simp add: map_of_eq_None_iff)
    finally show "k \<in> set (map fst ?R) \<longleftrightarrow> k \<in> set (map fst (active_tasks s))" .
  qed
  then have "card (set (map fst ?R)) = card (set (map fst (active_tasks s)))"
    by (rule arg_cong)
  moreover from dr have "card (set (map fst ?R)) = length (map fst ?R)"
    by (rule distinct_card)
  moreover from da have "card (set (map fst (active_tasks s))) = length (map fst (active_tasks s))"
    by (rule distinct_card)
  ultimately have "length (map fst ?R) = length (map fst (active_tasks s))"
    by (simp only:)
  then show ?thesis by (simp add: running_count_def)
qed

text \<open>
  Property X1 (the ceiling for calls that do not overlap): after any sequence of calls
  on a manager created with a ceiling \<open>n \<ge> 0\<close>, each call performed as a whole before
  the next one starts (creations, and stops, watcher steps and cleanups as well), the
  active set and the number of records with status \<open>running\<close> are at most \<open>n\<close>, and
  \<open>create_task\<close> on a manager whose active set has reached the ceiling raises instead
  of registering.
\<close>

theorem admission_ceiling:
  assumes "0 \<le> n"
  shows "int (length (active_tasks (run calls (init_manager n)))) \<le> n \<and>
         int (running_count (run calls (init_manager n))) \<le> n \<and>
         (\<forall>ip hours tid now.
            int (length (active_tasks (run calls (init_manager n)))) \<ge> n \<longrightarrow>
            create_task ip hours tid now (run calls (init_manager n)) = Inl CapacityExceeded)"
proof -
  let ?s = "run calls (init_manager n)"
  have c0: "consistent (init_manager n)" by (simp add: consistent_def init_manager_def)
  from assms have b0: "bounded (init_manager n)" by (simp add: bounded_def init_manager_def)
  from run_invariant [OF c0 b0, of calls]
  have c: "consistent ?s" and b: "bounded ?s" and m: "max_concurrent_tasks ?s = n"
    by (simp_all add: init_manager_def)
  from b m have le: "int (length (active_tasks ?s)) \<le> n" by (simp add: bounded_def)
  moreover from c le have "int (running_count ?s) \<le> n" by (simp add: running_count_active)
  moreover have "create_task ip hours tid now ?s = Inl CapacityExceeded"
    if "int (length (active_tasks ?s)) \<ge> n" for ip hours tid now
    using that m by (simp add: create_task_def at_capacity_def)
  ultimately show ?thesis by blast
qed

text \<open>
  The theorem at ceiling 1 and two creations: the second is refused, one task is
  active and running, and a third creation raises.
\<close>

theorem admission_ceiling_witness:
  "(0::int) \<le> 1 \<and>
   int (length (active_tasks (run [Create ''8.8.8.8'' 1 ''a1b2c3d4'' 0,
                                   Create ''1.1.1.1'' 1 ''e5f6a7b8'' 1] (init_manager 1)))) \<le> 1 \<and>
   int (running_count (run [Create ''8.8.8.8'' 1 ''a1b2c3d4'' 0,
                            Create ''1.1.1.1'' 1 ''e5f6a7b8'' 1] (init_manager 1))) \<le> 1 \<and>
   1 \<le> int (length (active_tasks (run [Create ''8.8.8.8'' 1 ''a1b2c3d4'' 0,
                                       Create ''1.1.1.1'' 1 ''e5f6a7b8'' 1] (init_manager 1)))) \<and>
   create_task ''9.9.9.9'' 1 ''0badcafe'' 2
     (run [Create ''8.8.8.8'' 1 ''a1b2c3d4'' 0, Create ''1.1.1.1'' 1 ''e5f6a7b8'' 1]
        (init_manager 1)) = Inl CapacityExceeded"
proof -
  let ?s = "run [Create ''8.8.8.8'' 1 ''a1b2c3d4'' 0, Create ''1.1.1.1'' 1 ''e5f6a7b8'' 1]
              (init_manager 1)"
  have n: "(0::int) \<le> 1" by simp
  have full: "1 \<le> int (length (active_tasks ?s))"
    by (simp add: run_def create_task_def at_capacity_def init_manager_def monitor_start_def
          register_task_def new_monitor_def timedelta_hours_def)
  note inst = admission_ceiling [OF n, of "[Create ''8.8.8.8'' 1 ''a1b2c3d4'' 0,
                                           Create ''1.1.1.1'' 1 ''e5f6a7b8'' 1]"]
  from inst full have "create_task ''9.9.9.9'' 1 ''0badcafe'' 2 ?s = Inl CapacityExceeded"
    by blast
  with inst n full show ?thesis by blast
qed

section \<open>The scheduler: cleanup of the registry\<close>

text \<open>
  Claim C10 (frame of the registry cleanup): \<open>cleanup_old_tasks\<close> removes from
  \<open>task_history\<close> only records whose status is \<open>completed\<close> (and whose time is before
  the cutoff); a record that is \<open>running\<close> or \<open>stopped\<close> is left as it is whatever
  its age, and the active tasks and the monitors are untouched.
\<close>

theorem cleanup_removes_only_completed:
  "active_tasks (cleanup_old_tasks days now s) = active_tasks s \<and>
   monitors (cleanup_old_tasks days now s) = monitors s \<and>
   (\<forall>tid t. map_of (task_history s) tid = Some t \<and> info_status t \<noteq> Completed \<longrightarrow>
      map_of (task_history (cleanup_old_tasks days now s)) tid = Some t) \<and>
   (\<forall>tid t. map_of (task_history s) tid = Some t \<and>
      map_of (task_history (cleanup_old_tasks days now s)) tid \<noteq> Some t \<longrightarrow>
      info_status t = Completed \<and> task_time t < now - of_int days * 86400)"
proof -
  let ?P = "\<lambda>tid t. \<not> (info_status t = Completed \<and> task_time t < now - of_int days * 86400)"
  have keep: "map_of (task_history (cleanup_old_tasks days now s)) tid = Some t"
    if "map_of (task_history s) tid = Some t" and "?P tid t" for tid t
    using map_of_filter_in [of "task_history s" tid t ?P, OF that]
    by (simp add: cleanup_old_tasks_def Let_def)
  show ?thesis
    using keep by (auto simp: cleanup_old_tasks_def Let_def)
qed

text \<open>
  The theorem 31 days after both tasks ended, with 7 days kept: the stopped task
  stays, the completed one is removed.
\<close>

theorem cleanup_removes_only_completed_witness:
  "map_of (task_history aged_manager) ''0badcafe'' = Some stopped_record \<and>
   info_status stopped_record \<noteq> Completed \<and>
   map_of (task_history (cleanup_old_tasks 7 2678400 aged_manager)) ''0badcafe'' = Some stopped_record \<and>
   map_of (task_history aged_manager) ''a1b2c3d4'' = Some old_record \<and>
   map_of (task_history (cleanup_old_tasks 7 2678400 aged_manager)) ''a1b2c3d4'' \<noteq> Some old_record \<and>
   info_status old_record = Completed \<and>
   task_time old_record < 2678400 - of_int 7 * 86400"
proof -
  have a: "map_of (task_history aged_manager) ''0badcafe'' = Some stopped_record"
    by (simp add: aged_manager_def)
  have a': "info_status stopped_record \<noteq> Completed"
    by (simp add: stopped_record_def)
  have b: "map_of (task_history aged_manager) ''a1b2c3d4'' = Some old_record"
    by (simp add: aged_manager_def)
  have c: "map_of (task_history (cleanup_old_tasks 7 2678400 aged_manager)) ''a1b2c3d4'' \<noteq> Some old_record"
    by (simp add: aged_manager_def cleanup_old_tasks_def old_record_def stopped_record_def task_time_def)
  note inst = cleanup_removes_only_completed [of 7 2678400 aged_manager]
  from inst a a' have k: "map_of (task_history (cleanup_old_tasks 7 2678400 aged_manager)) ''0badcafe'' = Some stopped_record"
    by blast
  from inst b c have r: "info_status old_record = Completed \<and> task_time old_record < 2678400 - of_int 7 * 86400"
    by blast
  from a a' k b c r show ?thesis by blast
qed

section \<open>The scheduler: stopping a task\<close>

lemma finish_sets_completed:
  "map_of (task_history s) (w_task_id w) = Some t \<Longrightarrow>
     get_task_status (w_task_id w) (monitor_task_finish now w s)
       = Some (t\<lparr>info_status := Completed, end_time := Some now, progress := 100\<rparr>)"
  by (simp add: monitor_task_finish_def get_task_status_def Let_def update_conv')

lemma stop_task_active:
  "map_of (active_tasks s) tid = Some m \<Longrightarrow> map_of (task_history s) tid = Some t \<Longrightarrow>
     fst (stop_task tid now s) = Inr True \<and>
     get_task_status tid (snd (stop_task tid now s))
        = Some (t\<lparr>info_status := Stopped, end_time := Some now\<rparr>) \<and>
     map_of (active_tasks (snd (stop_task tid now s))) tid = None \<and>
     \<not> running m (snd (stop_task tid now s))"
  by (auto simp: stop_task_def monitor_stop_def get_task_status_def Let_def update_conv' delete_conv' running_def)

lemma stop_task_inactive:
  "map_of (active_tasks s) tid = None \<Longrightarrow> stop_task tid now s = (Inr False, s)"
  by (simp add: stop_task_def)

text \<open>
  Claim C2 (stop pre-empts completion): after an explicit stop the status stays
  \<open>stopped\<close>; the watcher sets \<open>completed\<close> and progress 100 only when the task was
  not stopped. The block after the watcher's loop tests only that the task is in
  \<open>task_history\<close>: for a task created at time 0 and stopped at time 10, the first
  stop returns true, the second returns false and changes nothing, the status is
  \<open>stopped\<close>; the watcher then finds the monitor not running, leaves its loop, and
  its final block sets the status to \<open>completed\<close> and the progress to 100.
\<close>

theorem watcher_overwrites_stopped:
  "(case create_task ''8.8.8.8'' 1 ''a1b2c3d4'' 0 (init_manager 5) of
      Inl e \<Rightarrow> None
    | Inr (t, s1) \<Rightarrow>
        (case stop_task t 10 s1 of (r1, s2) \<Rightarrow>
          (case stop_task t 11 s2 of (r2, s3) \<Rightarrow>
             Some (r1, r2, s3 = s2,
                   map_option info_status (get_task_status t s3),
                   monitor_task_iter 15 watcher1 s3 = Inr (False, s3),
                   map_option (\<lambda>r. (info_status r, progress r))
                     (get_task_status t (monitor_task_finish 15 watcher1 s3))))))
   = Some (Inr True, Inr False, True, Some Stopped, True, Some (Completed, 100))"
  by (simp add: create_task_def at_capacity_def init_manager_def monitor_start_def
        register_task_def new_monitor_def timedelta_hours_def datetime_add_def
        watcher_deadline_def stop_task_def monitor_stop_def Let_def get_task_status_def
        monitor_task_iter_def running_def watcher1_def monitor_task_finish_def)

section \<open>The handlers: the duration of a new task\<close>





section \<open>The handlers: cleanup\<close>

lemma unlink_old_lookup:
  "distinct (map fst dir) \<Longrightarrow>
     map_of (unlink_old pat mt cutoff dir) name =
       (case map_of dir name of
          None \<Rightarrow> None
        | Some f \<Rightarrow> if glob_match pat name \<and> mt f < cutoff then None else Some f)"
  by (simp add: unlink_old_def map_of_filter_keep split: option.splits)

text \<open>
  Claim C7 as stated fails: 31 days after the task of \<open>old_app\<close> completed, the
  \<open>/cleanup\<close> handler deletes its data file and report but leaves its record in
  \<open>task_history\<close> and \<open>completed_tasks\<close>; \<open>cleanup_old_tasks\<close>, which removes the
  record, is given the manager only and leaves the report in the store.
\<close>

theorem cleanup_leaves_registry:
  "get_task_status ''a1b2c3d4'' (task_manager (cleanup 2678400 old_app)) = Some old_record \<and>
   completed_tasks (task_manager (cleanup 2678400 old_app)) = [old_record] \<and>
   load_task_data ''8.8.8.8'' (data_manager (cleanup 2678400 old_app)) = None \<and>
   get_task_report ''a1b2c3d4'' (data_manager (cleanup 2678400 old_app)) = None \<and>
   get_task_status ''a1b2c3d4'' (cleanup_old_tasks 30 2678400 (task_manager old_app)) = None \<and>
   get_task_report ''a1b2c3d4'' (data_manager old_app) = Some old_stats"
  by (simp add: cleanup_def old_app_def clean_old_data_def unlink_old_def get_task_status_def
        load_task_data_def glob_def get_task_report_def report_name_def cleanup_old_tasks_def
        old_record_def task_time_def)

text \<open>
  Claim C7 (cleanup), amended: the \<open>/cleanup\<close> handler purges the store only. Every
  sample file (\<open>*.csv\<close>), report (\<open>*.json\<close>) and chart (\<open>*.png\<close>) whose modification
  time is before \<open>now\<close> minus 7 days is deleted, every other file is kept as it is,
  and the manager with its job records is unchanged.
\<close>

theorem cleanup_purges_store_only:
  assumes "distinct (map fst (raw (data_manager a)))"
    and "distinct (map fst (reports (data_manager a)))"
    and "distinct (map fst (processed (data_manager a)))"
  shows "task_manager (cleanup now a) = task_manager a \<and>
    (\<forall>name f. map_of (raw (data_manager a)) name = Some f \<longrightarrow>
       map_of (raw (data_manager (cleanup now a))) name =
         (if glob_match ''*.csv'' name \<and> mtime f < now - 7 * 86400 then None else Some f)) \<and>
    (\<forall>name t st. map_of (reports (data_manager a)) name = Some (t, st) \<longrightarrow>
       map_of (reports (data_manager (cleanup now a))) name =
         (if glob_match ''*.json'' name \<and> t < now - 7 * 86400 then None else Some (t, st))) \<and>
    (\<forall>name t. map_of (processed (data_manager a)) name = Some t \<longrightarrow>
       map_of (processed (data_manager (cleanup now a))) name =
         (if glob_match ''*.png'' name \<and> t < now - 7 * 86400 then None else Some t))"
  using assms
  by (simp add: cleanup_def clean_old_data_def Let_def unlink_old_lookup
        del: glob_match.simps map_of_eq_Some_iff)

text \<open>
  The theorem on \<open>old_app\<close>: 31 days later the report is deleted, one day later it is
  kept, and the manager is the same.
\<close>

theorem cleanup_purges_store_only_witness:
  "distinct (map fst (raw (data_manager old_app))) \<and>
   distinct (map fst (reports (data_manager old_app))) \<and>
   distinct (map fst (processed (data_manager old_app))) \<and>
   task_manager (cleanup 2678400 old_app) = task_manager old_app \<and>
   map_of (reports (data_manager old_app)) ''report_a1b2c3d4.json'' = Some (0, old_stats) \<and>
   map_of (reports (data_manager (cleanup 2678400 old_app))) ''report_a1b2c3d4.json'' = None \<and>
   map_of (reports (data_manager (cleanup 86400 old_app))) ''report_a1b2c3d4.json''
     = Some (0, old_stats)"
proof -
  have d1: "distinct (map fst (raw (data_manager old_app)))" by (simp add: old_app_def)
  have d2: "distinct (map fst (reports (data_manager old_app)))" by (simp add: old_app_def)
  have d3: "distinct (map fst (processed (data_manager old_app)))" by (simp add: old_app_def)
  have r: "map_of (reports (data_manager old_app)) ''report_a1b2c3d4.json'' = Some (0, old_stats)"
    by (simp add: old_app_def)
  have g: "glob_match ''*.json'' ''report_a1b2c3d4.json''" by simp
  note far = cleanup_purges_store_only [OF d1 d2 d3, of 2678400]
  note near = cleanup_purges_store_only [OF d1 d2 d3, of 86400]
  from far have t: "task_manager (cleanup 2678400 old_app) = task_manager old_app" by blast
  from far r have "map_of (reports (data_manager (cleanup 2678400 old_app))) ''report_a1b2c3d4.json''
      = (if glob_match ''*.json'' ''report_a1b2c3d4.json'' \<and> (0::real) < 2678400 - 7 * 86400
         then None else Some (0, old_stats))"
    by blast
  with g have gone: "map_of (reports (data_manager (cleanup 2678400 old_app))) ''report_a1b2c3d4.json'' = None"
    by simp
  from near r have "map_of (reports (data_manager (cleanup 86400 old_app))) ''report_a1b2c3d4.json''
      = (if glob_match ''*.json'' ''report_a1b2c3d4.json'' \<and> (0::real) < 86400 - 7 * 86400
         then None else Some (0, old_stats))"
    by blast
  then have kept: "map_of (reports (data_manager (cleanup 86400 old_app))) ''report_a1b2c3d4.json''
      = Some (0, old_stats)"
    by simp
  from d1 d2 d3 t r gone kept show ?thesis by blast
qed

section \<open>The scheduler: two threads in \<open>create_task\<close>\<close>

text \<open>A thread that runs its three steps alone does what \<open>create_task\<close> does.\<close>

lemma create_call_alone:
  "interleave [0, 0, 0] [new_call ip hours tid now] s =
     (case create_task ip hours tid now s of
        Inl e \<Rightarrow> ([(new_call ip hours tid now)\<lparr>c_pc := Raised\<rparr>], s)
      | Inr (t, s') \<Rightarrow> ([(new_call ip hours tid now)\<lparr>c_pc := Returned\<rparr>], s'))"
  by (simp add: create_step_def new_call_def create_task_def split: sum.splits)

text \<open>
  Claim C9 (lock discipline): the capacity test and the registration happen under one
  acquisition of the lock, so that no interleaving of concurrent creations exceeds the
  ceiling. The test is made before the lock is taken: with ceiling 1 and two threads
  that both make the test before either registers, both return and two tasks are
  active and running; when the first thread finishes before the second starts, the
  second raises.
\<close>

theorem create_task_race_exceeds_ceiling:
  "(case interleave [0, 1, 0, 1, 0, 1]
           [new_call ''8.8.8.8'' 1 ''a1b2c3d4'' 0, new_call ''1.1.1.1'' 1 ''e5f6a7b8'' 0]
           (init_manager 1) of
      (cs, s) \<Rightarrow> (map c_pc cs, map fst (active_tasks s), running_count s, max_concurrent_tasks s))
   = ([Returned, Returned], [''a1b2c3d4'', ''e5f6a7b8''], 2, 1) \<and>
   (case interleave [0, 0, 0, 1, 1, 1]
           [new_call ''8.8.8.8'' 1 ''a1b2c3d4'' 0, new_call ''1.1.1.1'' 1 ''e5f6a7b8'' 0]
           (init_manager 1) of
      (cs, s) \<Rightarrow> (map c_pc cs, map fst (active_tasks s), running_count s, max_concurrent_tasks s))
   = ([Returned, Raised], [''a1b2c3d4''], 1, 1)"
  by (simp add: create_step_def new_call_def init_manager_def at_capacity_def register_task_def
        monitor_start_def new_monitor_def timedelta_hours_def running_count_def)

text \<open>
  Claim C6 (admission ceiling): over all sequences of creations the number of running
  jobs never exceeds the ceiling, and a creation made while the active count is at the
  ceiling fails instead of registering. With the ceiling 5 of \<open>app.py\<close> and six
  creations that all make the capacity test before any of them registers, all six
  return and six tasks are active and running: the sixth registers while five tasks
  are active. This is the unguarded test of claim C9.
\<close>

theorem six_creations_pass_ceiling_five:
  "(case interleave [0, 1, 2, 3, 4, 5, 0, 0, 1, 1, 2, 2, 3, 3, 4, 4]
           [new_call ''10.0.0.1'' 1 ''00000001'' 0, new_call ''10.0.0.2'' 1 ''00000002'' 0,
            new_call ''10.0.0.3'' 1 ''00000003'' 0, new_call ''10.0.0.4'' 1 ''00000004'' 0,
            new_call ''10.0.0.5'' 1 ''00000005'' 0, new_call ''10.0.0.6'' 1 ''00000006'' 0]
           (init_manager 5) of
      (cs, s) \<Rightarrow> (length (active_tasks s), running_count s, max_concurrent_tasks s))
   = (5, 5, 5) \<and>
   (case interleave [0, 1, 2, 3, 4, 5, 0, 0, 1, 1, 2, 2, 3, 3, 4, 4, 5, 5]
           [new_call ''10.0.0.1'' 1 ''00000001'' 0, new_call ''10.0.0.2'' 1 ''00000002'' 0,
            new_call ''10.0.0.3'' 1 ''00000003'' 0, new_call ''10.0.0.4'' 1 ''00000004'' 0,
            new_call ''10.0.0.5'' 1 ''00000005'' 0, new_call ''10.0.0.6'' 1 ''00000006'' 0]
           (init_manager 5) of
      (cs, s) \<Rightarrow> (map c_pc cs, length (active_tasks s), running_count s, max_concurrent_tasks s))
   = ([Returned, Returned, Returned, Returned, Returned, Returned], 6, 6, 5)"
  by (simp add: create_step_def new_call_def init_manager_def at_capacity_def register_task_def
        monitor_start_def new_monitor_def timedelta_hours_def running_count_def)

end
